theory Spec2Isabelle
  imports Main
begin

section \<open>Python and host-library primitives used by \<^verbatim>\<open>sphinx_kroki.py\<close>\<close>

text \<open>
  Strings are \<^typ>\<open>string\<close> (lists of 8-bit characters), so \<^verbatim>\<open>str.encode()\<close> is the
  identity. Library functions whose result no property below depends on are parameters,
  collected in the record \<open>library\<close>: Python's \<^verbatim>\<open>repr\<close> of a string,
  \<^verbatim>\<open>hashlib.sha1(b).hexdigest()\<close> and \<^verbatim>\<open>HTMLTranslator.encode\<close>. The translation
  function \<^verbatim>\<open>__\<close> is the identity (untranslated messages).
\<close>

record library =
  repr :: "string \<Rightarrow> string"
  sha1_hexdigest :: "string \<Rightarrow> string"
  encode :: "string \<Rightarrow> string"

text \<open>\<^verbatim>\<open>str.isspace\<close> on the ASCII range: tab, LF, VT, FF, CR, FS, GS, RS, US and space.\<close>

definition isspace :: "char \<Rightarrow> bool" where
  "isspace c = (c \<in> set [CHR 0x09, CHR 0x0A, CHR 0x0B, CHR 0x0C, CHR 0x0D,
                          CHR 0x1C, CHR 0x1D, CHR 0x1E, CHR 0x1F, CHR 0x20])"

text \<open>\<^verbatim>\<open>s.strip()\<close>: leading and trailing whitespace removed.\<close>

definition strip :: "string \<Rightarrow> string" where
  "strip s = rev (dropWhile isspace (rev (dropWhile isspace s)))"

text \<open>\<^verbatim>\<open>sep.join(xs)\<close>.\<close>

fun join :: "string \<Rightarrow> string list \<Rightarrow> string" where
  "join sep [] = []"
| "join sep [x] = x"
| "join sep (x # y # ys) = x @ sep @ join sep (y # ys)"

definition startswith :: "string \<Rightarrow> string \<Rightarrow> bool" where
  "startswith s p = (take (length p) s = p)"

definition endswith :: "string \<Rightarrow> string \<Rightarrow> bool" where
  "endswith s p = (drop (length s - length p) s = p \<and> length p \<le> length s)"

text \<open>
  \<^verbatim>\<open>posixpath.join(a, b)\<close>: an absolute \<open>b\<close> replaces \<open>a\<close>; otherwise the parts are
  concatenated, with one separator unless \<open>a\<close> is empty or already ends with one.
  \<^verbatim>\<open>os.path\<close> is taken to be \<^verbatim>\<open>posixpath\<close> (a POSIX host).
\<close>

definition posixpath_join :: "string \<Rightarrow> string \<Rightarrow> string" where
  "posixpath_join a b =
     (if startswith b ''/'' then b
      else if a = [] \<or> endswith a ''/'' then a @ b
      else a @ ''/'' @ b)"

text \<open>\<^verbatim>\<open>posixpath.join(a, b, c)\<close> folds the two-argument case from the left.\<close>

definition posixpath_join3 :: "string \<Rightarrow> string \<Rightarrow> string \<Rightarrow> string" where
  "posixpath_join3 a b c = posixpath_join (posixpath_join a b) c"

text \<open>
  \<^verbatim>\<open>posixpath.dirname(p)\<close>: everything up to and including the last separator, then
  trailing separators removed unless the head consists of separators only.
\<close>

definition dirname :: "string \<Rightarrow> string" where
  "dirname p =
     (let head = rev (dropWhile (\<lambda>c. c \<noteq> CHR ''/'') (rev p))
      in if head \<noteq> [] \<and> head \<noteq> replicate (length head) (CHR ''/'')
         then rev (dropWhile (\<lambda>c. c = CHR ''/'') (rev head))
         else head)"

text \<open>
  \<^verbatim>\<open>posixpath.splitext(p)[1]\<close>: the text from the last dot of the last path component
  on, provided some character before that dot in the component is not a dot; otherwise
  the empty string.
\<close>

definition splitext_ext :: "string \<Rightarrow> string" where
  "splitext_ext p =
     (let base = rev (takeWhile (\<lambda>c. c \<noteq> CHR ''/'') (rev p));
          ext = rev (takeWhile (\<lambda>c. c \<noteq> CHR ''.'') (rev base));
          stem = take (length base - length ext - 1) base
      in if CHR ''.'' \<in> set base \<and> filter (\<lambda>c. c \<noteq> CHR ''.'') stem \<noteq> []
         then CHR ''.'' # ext
         else [])"

text \<open>\<^verbatim>\<open>str(d)\<close> of a \<^verbatim>\<open>Dict[str, str]\<close>, kept as an association list in insertion order.\<close>

definition str_dict :: "library \<Rightarrow> (string \<times> string) list \<Rightarrow> string" where
  "str_dict lib d =
     ''{'' @ join '', '' (map (\<lambda>(k, v). repr lib k @ '': '' @ repr lib v) d) @ ''}''"

text \<open>\<^verbatim>\<open>d.get(k, default)\<close> on such a dictionary.\<close>

definition dict_get :: "(string \<times> string) list \<Rightarrow> string \<Rightarrow> string \<Rightarrow> string" where
  "dict_get d k dflt = (case map_of d k of Some v \<Rightarrow> v | None \<Rightarrow> dflt)"

section \<open>Module constants\<close>

definition formats :: "string list" where
  "formats = [''png'', ''svg'', ''jpeg'', ''base64'', ''txt'', ''utxt'']"

definition types :: "string list" where
  "types = [''blockdiag'', ''bpmn'', ''bytefield'', ''seqdiag'',
            ''actdiag'', ''nwdiag'', ''packetdiag'', ''rackdiag'',
            ''c4plantuml'', ''ditaa'', ''erd'', ''graphviz'', ''mermaid'',
            ''nomnoml'', ''plantuml'', ''svgbob'', ''vega'', ''vegalite'',
            ''wavedrom'']"

definition extension_type_map :: "string \<Rightarrow> string option" where
  "extension_type_map = map_of
     [(''.puml'', ''plantuml''),
      (''.dot'', ''graphviz''),
      (''.gv'', ''graphviz''),
      (''.bpmn'', ''bpmn''),
      (''.ditaa'', ''ditaa''),
      (''.bob'', ''svgbob'')]"

section \<open>The directive \<^verbatim>\<open>Kroki\<close>\<close>

text \<open>
  The options a directive instance carries after the host has applied \<^verbatim>\<open>option_spec\<close>:
  one optional field per key, \<open>None\<close> when the key is not in \<^verbatim>\<open>self.options\<close>.
\<close>

record options =
  o_filename :: "string option"
  o_type :: "string option"
  o_format :: "string option"
  o_align :: "string option"
  o_caption :: "string option"
  o_class :: "string list option"

record directive =
  arguments :: "string list"
  options :: options
  content :: "string list"
  lineno :: nat

text \<open>
  The build environment as \<^verbatim>\<open>run\<close> uses it. \<open>read_text p\<close> is the outcome of
  \<^verbatim>\<open>open(p, encoding="utf-8").read()\<close>: \<open>None\<close> stands for \<^verbatim>\<open>OSError\<close>, the one
  exception the source handles; file contents are text, so decoding succeeds.
  \<open>dependencies\<close> is what \<^verbatim>\<open>note_dependency\<close> records.
\<close>

record build_env =
  docname :: string
  search_image_for_language :: "string \<Rightarrow> string"
  relfn2path :: "string \<Rightarrow> string \<times> string"
  read_text :: "string \<Rightarrow> string option"
  dependencies :: "string set"

text \<open>
  The node \<^verbatim>\<open>kroki\<close> with the attributes \<^verbatim>\<open>run\<close> sets; an attribute that is only set
  under a condition is optional.
\<close>

record kroki =
  k_type :: string
  k_format :: "string option"
  k_code :: string
  k_options :: "(string \<times> string) list"
  k_align :: "string option"
  k_classes :: "string list option"

text \<open>
  What \<^verbatim>\<open>run\<close> returns: a system message made by \<^verbatim>\<open>document.reporter.warning(msg,
  line=lineno)\<close>, a \<^verbatim>\<open>kroki\<close> node, or the figure \<^verbatim>\<open>figure_wrapper\<close> builds around one
  (its alignment, the wrapped node, the caption text).
\<close>

datatype node =
    system_message string nat
  | kroki_node kroki
  | figure "string option" kroki string

text \<open>
  \<^verbatim>\<open>sphinx.ext.graphviz.figure_wrapper\<close>: the figure takes over the node's alignment
  (popped from the node) and gets a caption child.
\<close>

definition figure_wrapper :: "kroki \<Rightarrow> string \<Rightarrow> node" where
  "figure_wrapper n caption = figure (k_align n) (n\<lparr>k_align := None\<rparr>) caption"

text \<open>The loop over \<^verbatim>\<open>self.arguments\<close> (lines 83--89); a later argument of a kind wins.\<close>

fun scan_arguments ::
  "string list \<Rightarrow> string option \<Rightarrow> string option \<Rightarrow> string option
   \<Rightarrow> string option \<times> string option \<times> string option" where
  "scan_arguments [] filename diagram_type output_format =
     (filename, diagram_type, output_format)"
| "scan_arguments (argument # rest) filename diagram_type output_format =
     (if argument \<in> set types then scan_arguments rest filename (Some argument) output_format
      else if argument \<in> set formats then scan_arguments rest filename diagram_type (Some argument)
      else scan_arguments rest (Some argument) diagram_type output_format)"

text \<open>The warning texts, in the order of the source.\<close>

definition msg_filename_conflict :: string where
  "msg_filename_conflict =
     ''Kroki directive cannot have both filename option and a filename argument''"

definition msg_content_conflict :: string where
  "msg_content_conflict =
     ''Kroki directive cannot have both content and a filename argument''"

definition msg_read_failed :: "library \<Rightarrow> string \<Rightarrow> string" where
  "msg_read_failed lib filename =
     ''External kroki file '' @ repr lib filename @ '' not found or reading it failed''"

definition msg_no_content :: string where
  "msg_no_content =
     ''Ignoring kroki directive without content. It is necessary to specify ''
     @ ''filename argument/option or content''"

definition msg_type_conflict :: string where
  "msg_type_conflict =
     ''Kroki directive cannot have both type option and a type argument''"

definition msg_type_required :: string where
  "msg_type_required = ''Kroki directive has to define diagram type.''"

definition msg_format_conflict :: string where
  "msg_format_conflict =
     ''Kroki directive cannot have both format option and a format argument''"

text \<open>
  Lines 115--162 of \<^verbatim>\<open>run\<close>: the checks after the source text is known, and the node.
  \<open>filename\<close> is the absolute path of the file read, if one was read.
  \<^verbatim>\<open>add_name\<close> does nothing here: \<^verbatim>\<open>option_spec\<close> has no \<^verbatim>\<open>name\<close> key.
\<close>

definition build_node ::
  "build_env \<Rightarrow> directive \<Rightarrow> string \<Rightarrow> string option \<Rightarrow> string option \<Rightarrow> string option
   \<Rightarrow> node list" where
  "build_node env d source filename diagram_type output_format =
     (if strip source = [] then [system_message msg_no_content (lineno d)]
      else if o_type (options d) \<noteq> None \<and> diagram_type \<noteq> None
        then [system_message msg_type_conflict (lineno d)]
      else
        let diagram_type =
              (if o_type (options d) \<noteq> None then o_type (options d) else diagram_type);
            diagram_type =
              (if diagram_type = None
               then (case filename of
                       Some f \<Rightarrow> extension_type_map (splitext_ext f)
                     | None \<Rightarrow> None)
               else diagram_type)
        in case diagram_type of
             None \<Rightarrow> [system_message msg_type_required (lineno d)]
           | Some dt \<Rightarrow>
               if o_format (options d) \<noteq> None \<and> output_format \<noteq> None
                 then [system_message msg_format_conflict (lineno d)]
               else
                 let output_format =
                       (if o_format (options d) \<noteq> None then o_format (options d)
                        else output_format);
                     node = \<lparr>k_type = dt, k_format = output_format, k_code = source,
                             k_options = [(''docname'', docname env)],
                             k_align = o_align (options d),
                             k_classes = o_class (options d)\<rparr>
                 in case o_caption (options d) of
                      None \<Rightarrow> [kroki_node node]
                    | Some caption \<Rightarrow> [figure_wrapper node caption])"

text \<open>
  \<^verbatim>\<open>Kroki.run\<close>. The result is the node list and the environment, whose dependencies
  grow when a file is looked up (lines 103--106).
\<close>

definition run :: "library \<Rightarrow> build_env \<Rightarrow> directive \<Rightarrow> node list \<times> build_env" where
  "run lib env d =
     (let source = join [CHR 0x0A] (content d);
          (filename, diagram_type, output_format) =
             scan_arguments (arguments d) None None None
      in if o_filename (options d) \<noteq> None \<and> filename \<noteq> None
           then ([system_message msg_filename_conflict (lineno d)], env)
         else
           let filename =
                 (if o_filename (options d) \<noteq> None then o_filename (options d) else filename)
           in if strip source \<noteq> [] \<and> filename \<noteq> None
                then ([system_message msg_content_conflict (lineno d)], env)
              else
                case filename of
                  None \<Rightarrow> (build_node env d source None diagram_type output_format, env)
                | Some given \<Rightarrow>
                    let argument = search_image_for_language env given;
                        (rel_filename, filename) = relfn2path env argument;
                        env = env\<lparr>dependencies := insert rel_filename (dependencies env)\<rparr>
                    in (case read_text env filename of
                          None \<Rightarrow>
                            ([system_message (msg_read_failed lib filename) (lineno d)], env)
                        | Some source \<Rightarrow>
                            (build_node env d source (Some filename) diagram_type output_format,
                             env)))"

section \<open>Rendering: \<^verbatim>\<open>render_kroki\<close>\<close>

text \<open>The builder as the renderer reads it: three configuration values and three paths.\<close>

record builder =
  kroki_url :: string
  kroki_output_format :: string
  kroki_inline_svg :: bool
  imgpath :: string
  outdir :: string
  imagedir :: string

datatype kroki_error = KrokiError string

text \<open>The two exception classes the \<^verbatim>\<open>try\<close> block of \<^verbatim>\<open>render_kroki\<close> handles.\<close>

datatype exn = RequestException | IOError

text \<open>
  What \<^verbatim>\<open>requests.post(url, json=payload, stream=True)\<close> does: it raises a
  \<^verbatim>\<open>RequestException\<close>, or it returns a response with a status code, the chunks
  \<^verbatim>\<open>iter_content\<close> will yield, and a flag saying that the iteration ends with a
  \<^verbatim>\<open>RequestException\<close> (a broken stream) instead of finishing.
\<close>

datatype http_outcome = RequestFailed | Response nat "string list" bool

text \<open>
  \<^verbatim>\<open>Response.raise_for_status()\<close> of the \<^verbatim>\<open>requests\<close> library raises \<^verbatim>\<open>HTTPError\<close> (a
  \<^verbatim>\<open>RequestException\<close>) for the client and server error codes, 400 to 599, and for
  no other status.
\<close>

definition raise_for_status :: "nat \<Rightarrow> bool" where
  "raise_for_status status = (400 \<le> status \<and> status < 600)"

text \<open>
  The behaviour of the outside world during one call: whether \<^verbatim>\<open>ensuredir\<close> and
  \<^verbatim>\<open>open(outfn, mode='wb')\<close> raise \<^verbatim>\<open>OSError\<close>, how the service answers a POST, and the
  index of the chunk whose \<^verbatim>\<open>f.write\<close> raises, if any does.
\<close>

record conditions =
  ensuredir_fails :: bool
  post :: "string \<Rightarrow> (string \<times> string) list \<Rightarrow> http_outcome"
  open_fails :: bool
  write_fails_at :: "nat option"

text \<open>
  The state the renderer reads and changes: the regular files with their contents, the
  directories made by \<^verbatim>\<open>ensuredir\<close>, and the POST requests issued so far.
\<close>

record world =
  files :: "string \<Rightarrow> string option"
  dirs :: "string set"
  posts :: "(string \<times> (string \<times> string) list) list"

definition isfile :: "world \<Rightarrow> string \<Rightarrow> bool" where
  "isfile w p = (files w p \<noteq> None)"

text \<open>The local variables \<^verbatim>\<open>payload\<close>, \<^verbatim>\<open>hashkey\<close>, \<^verbatim>\<open>fname\<close>, \<^verbatim>\<open>relfn\<close> and \<^verbatim>\<open>outfn\<close>.\<close>

definition payload :: "string \<Rightarrow> string \<Rightarrow> string \<Rightarrow> (string \<times> string) list" where
  "payload diagram_type diagram_source output_format =
     [(''diagram_source'', diagram_source),
      (''diagram_type'', diagram_type),
      (''output_format'', output_format)]"

definition hashkey :: "library \<Rightarrow> builder \<Rightarrow> string \<Rightarrow> string \<Rightarrow> string \<Rightarrow> string" where
  "hashkey lib b diagram_type diagram_source output_format =
     kroki_url b @ str_dict lib (payload diagram_type diagram_source output_format)"

definition fname ::
  "library \<Rightarrow> builder \<Rightarrow> string \<Rightarrow> string \<Rightarrow> string \<Rightarrow> string \<Rightarrow> string" where
  "fname lib b diagram_type diagram_source output_format prefix =
     prefix @ ''-''
     @ sha1_hexdigest lib (hashkey lib b diagram_type diagram_source output_format)
     @ ''.'' @ output_format"

definition relfn ::
  "library \<Rightarrow> builder \<Rightarrow> string \<Rightarrow> string \<Rightarrow> string \<Rightarrow> string \<Rightarrow> string" where
  "relfn lib b diagram_type diagram_source output_format prefix =
     posixpath_join (imgpath b) (fname lib b diagram_type diagram_source output_format prefix)"

definition outfn ::
  "library \<Rightarrow> builder \<Rightarrow> string \<Rightarrow> string \<Rightarrow> string \<Rightarrow> string \<Rightarrow> string" where
  "outfn lib b diagram_type diagram_source output_format prefix =
     posixpath_join3 (outdir b) (imagedir b)
       (fname lib b diagram_type diagram_source output_format prefix)"

definition msg_no_diagram :: string where
  "msg_no_diagram = ''kroki did not produce a diagram''"

definition msg_unable_to_write :: "library \<Rightarrow> string \<Rightarrow> string" where
  "msg_unable_to_write lib path = ''Unable to write diagram to file '' @ repr lib path"

text \<open>
  The loop of lines 188--189 on the opened file: \<open>i\<close> counts the chunks written and
  \<open>data\<close> is what the file holds. The iterator yields a chunk, which is written, until
  it finishes or raises; the exception that ends the loop, if any, comes with the data
  written before it.
\<close>

fun write_chunks ::
  "nat option \<Rightarrow> nat \<Rightarrow> string list \<Rightarrow> bool \<Rightarrow> string \<Rightarrow> exn option \<times> string" where
  "write_chunks fails_at i [] broken data =
     (if broken then Some RequestException else None, data)"
| "write_chunks fails_at i (chunk # rest) broken data =
     (if fails_at = Some i then (Some IOError, data)
      else write_chunks fails_at (Suc i) rest broken (data @ chunk))"

text \<open>
  \<^verbatim>\<open>render_kroki\<close>: \<open>Inr (relfn, outfn)\<close> is the returned pair, \<open>Inl\<close> the \<^verbatim>\<open>KrokiError\<close>
  raised. \<^verbatim>\<open>open(outfn, mode='wb')\<close> creates the file empty; what was written stays
  when the loop is left by an exception.
\<close>

definition render_kroki ::
  "library \<Rightarrow> conditions \<Rightarrow> builder \<Rightarrow> string \<Rightarrow> string \<Rightarrow> string \<Rightarrow> string \<Rightarrow> world
   \<Rightarrow> (kroki_error + string \<times> string) \<times> world" where
  "render_kroki lib io b diagram_type diagram_source output_format prefix w =
     (let url = kroki_url b;
          pl = payload diagram_type diagram_source output_format;
          rel = relfn lib b diagram_type diagram_source output_format prefix;
          out = outfn lib b diagram_type diagram_source output_format prefix
      in if isfile w out then (Inr (rel, out), w)
         else if ensuredir_fails io
           then (Inl (KrokiError (msg_unable_to_write lib out)), w)
         else
           let w = w\<lparr>dirs := insert (dirname out) (dirs w)\<rparr>;
               w = w\<lparr>posts := posts w @ [(url, pl)]\<rparr>
           in (case post io url pl of
                 RequestFailed \<Rightarrow> (Inl (KrokiError msg_no_diagram), w)
               | Response status chunks broken \<Rightarrow>
                   if raise_for_status status then (Inl (KrokiError msg_no_diagram), w)
                   else if open_fails io
                     then (Inl (KrokiError (msg_unable_to_write lib out)), w)
                   else
                     (case write_chunks (write_fails_at io) 0 chunks broken [] of
                        (raised, data) \<Rightarrow>
                          let w = w\<lparr>files := (files w)(out \<mapsto> data)\<rparr>
                          in (case raised of
                                None \<Rightarrow> (Inr (rel, out), w)
                              | Some RequestException \<Rightarrow>
                                  (Inl (KrokiError msg_no_diagram), w)
                              | Some IOError \<Rightarrow>
                                  (Inl (KrokiError (msg_unable_to_write lib out)), w)))))"

section \<open>Embedding: \<^verbatim>\<open>render_html\<close>\<close>

text \<open>
  A call \<^verbatim>\<open>logger.warning(msg, *args)\<close> is kept as the message template and its
  arguments.
\<close>

datatype log_arg = Str string | Exc kroki_error

text \<open>The translator's \<^verbatim>\<open>body\<close> and the warnings logged.\<close>

record translator =
  body :: "string list"
  log :: "(string \<times> log_arg list) list"

text \<open>
  How \<^verbatim>\<open>render_html\<close> ends: it raises \<^verbatim>\<open>nodes.SkipNode\<close>, which the host's tree walk
  catches, or the unhandled \<^verbatim>\<open>OSError\<close> of reading the artifact back for inline SVG.
\<close>

datatype signal = SkipNode | OSError

definition msg_render_warning :: string where
  "msg_render_warning = ''kroki %s diagram (%s) with code %r: %s''"

definition link_markup :: "string \<Rightarrow> string \<Rightarrow> string" where
  "link_markup href alt =
     ''<a href=\"'' @ href @ ''\"><img src=\"'' @ href @ ''\" alt=\"'' @ alt @ ''\" /></a>''"

text \<open>
  \<^verbatim>\<open>render_html\<close>. \<^verbatim>\<open>filter(None, classes)\<close> drops \<^verbatim>\<open>None\<close> and empty strings. The branch
  \<^verbatim>\<open>fname is None\<close> is not reachable, since \<^verbatim>\<open>render_kroki\<close> returns strings.
\<close>

definition render_html ::
  "library \<Rightarrow> conditions \<Rightarrow> builder \<Rightarrow> kroki \<Rightarrow> string \<Rightarrow> string \<Rightarrow> (string \<times> string) list
   \<Rightarrow> string \<Rightarrow> string option \<Rightarrow> translator \<times> world \<Rightarrow> signal \<times> translator \<times> world" where
  "render_html lib io b node diagram_type diagram_source opts prefix kroki_class st =
     (let output_format =
            (case k_format node of Some f \<Rightarrow> f | None \<Rightarrow> kroki_output_format b)
      in case render_kroki lib io b diagram_type diagram_source output_format prefix (snd st) of
           (Inl exc, w) \<Rightarrow>
             (SkipNode,
              (fst st)\<lparr>log := log (fst st) @
                 [(msg_render_warning,
                   [Str diagram_type, Str output_format, Str diagram_source, Exc exc])]\<rparr>,
              w)
         | (Inr (fname', outfn'), w) \<Rightarrow>
             let classes =
                   (case kroki_class of Some c \<Rightarrow> [c] | None \<Rightarrow> [])
                   @ [''kroki'', ''kroki-'' @ diagram_type]
                   @ (case k_classes node of Some cs \<Rightarrow> cs | None \<Rightarrow> []);
                 body1 = body (fst st)
                   @ [''<div class=\"'' @ join '' '' (filter (\<lambda>c. c \<noteq> []) classes) @ ''\">''];
                 body2 =
                   (case k_align node of
                      Some a \<Rightarrow>
                        body1 @ [''<div align=\"'' @ a @ ''\" class=\"align-'' @ a @ ''\">'']
                    | None \<Rightarrow> body1);
                 closing =
                   (case k_align node of
                      Some a \<Rightarrow> [''</div>'' @ [CHR 0x0A], ''</div>'' @ [CHR 0x0A]]
                    | None \<Rightarrow> [''</div>'' @ [CHR 0x0A]])
             in if output_format = ''svg'' \<and> kroki_inline_svg b
                  then (case files w outfn' of
                          None \<Rightarrow> (OSError, (fst st)\<lparr>body := body2\<rparr>, w)
                        | Some svg \<Rightarrow>
                            (SkipNode, (fst st)\<lparr>body := body2 @ [svg] @ closing\<rparr>, w))
                else
                  (SkipNode,
                   (fst st)\<lparr>body := body2
                      @ [link_markup fname' (strip (encode lib (dict_get opts ''caption'' diagram_source)))]
                      @ closing\<rparr>,
                   w))"

definition html_visit_kroki ::
  "library \<Rightarrow> conditions \<Rightarrow> builder \<Rightarrow> kroki \<Rightarrow> translator \<times> world \<Rightarrow> signal \<times> translator \<times> world" where
  "html_visit_kroki lib io b node st =
     render_html lib io b node (k_type node) (k_code node) (k_options node) ''kroki'' None st"

text \<open>
  The host's walk over one node that \<^verbatim>\<open>run\<close> returned, as far as this extension takes
  part in it: \<^verbatim>\<open>html_visit_kroki\<close> is called for a \<^verbatim>\<open>kroki\<close> node, also for the one
  inside a figure; \<^verbatim>\<open>SkipNode\<close> is caught and ends the visit of that node, any other
  exception leaves the walk. The host's own markup for system messages and figures is
  not part of the model.
\<close>

fun visit_node ::
  "library \<Rightarrow> conditions \<Rightarrow> builder \<Rightarrow> node \<Rightarrow> translator \<times> world \<Rightarrow> signal option \<times> translator \<times> world" where
  "visit_node lib io b (system_message msg line) st = (None, st)"
| "visit_node lib io b (kroki_node n) st =
     (case html_visit_kroki lib io b n st of
        (SkipNode, st') \<Rightarrow> (None, st')
      | (OSError, st') \<Rightarrow> (Some OSError, st'))"
| "visit_node lib io b (figure align n caption) st =
     (case html_visit_kroki lib io b n st of
        (SkipNode, st') \<Rightarrow> (None, st')
      | (OSError, st') \<Rightarrow> (Some OSError, st'))"

fun visit_nodes ::
  "library \<Rightarrow> conditions \<Rightarrow> builder \<Rightarrow> node list \<Rightarrow> translator \<times> world
   \<Rightarrow> signal option \<times> translator \<times> world" where
  "visit_nodes lib io b [] st = (None, st)"
| "visit_nodes lib io b (n # ns) st =
     (case visit_node lib io b n st of
        (None, st') \<Rightarrow> visit_nodes lib io b ns st'
      | (Some e, st') \<Rightarrow> (Some e, st'))"

section \<open>The parser's rules, stated on the directive's inputs\<close>

text \<open>
  The kinds of positional argument, by set membership in the order the loop tests them,
  and the last argument of a kind, if there is one.
\<close>

definition filename_like :: "string \<Rightarrow> bool" where
  "filename_like a = (a \<notin> set types \<and> a \<notin> set formats)"

definition type_like :: "string \<Rightarrow> bool" where
  "type_like a = (a \<in> set types)"

definition format_like :: "string \<Rightarrow> bool" where
  "format_like a = (a \<notin> set types \<and> a \<in> set formats)"

definition last_such :: "(string \<Rightarrow> bool) \<Rightarrow> string list \<Rightarrow> string option" where
  "last_such P xs = (case filter P xs of [] \<Rightarrow> None | y # ys \<Rightarrow> Some (last (y # ys)))"

definition filename_argument :: "directive \<Rightarrow> string option" where
  "filename_argument d = last_such filename_like (arguments d)"

definition type_argument :: "directive \<Rightarrow> string option" where
  "type_argument d = last_such type_like (arguments d)"

definition format_argument :: "directive \<Rightarrow> string option" where
  "format_argument d = last_such format_like (arguments d)"

text \<open>
  The filename a directive names, by option or by argument; the absolute path the host
  resolves it to; the block content as one text; and the text the diagram is made from
  (the file's when one is named and can be read).
\<close>

definition given_filename :: "directive \<Rightarrow> string option" where
  "given_filename d =
     (case o_filename (options d) of Some f \<Rightarrow> Some f | None \<Rightarrow> filename_argument d)"

definition resolved_path :: "build_env \<Rightarrow> string \<Rightarrow> string" where
  "resolved_path env f = snd (relfn2path env (search_image_for_language env f))"

definition content_text :: "directive \<Rightarrow> string" where
  "content_text d = join [CHR 0x0A] (content d)"


text \<open>
  The diagram type: the option, else the type-like argument, else what the extension of
  the path of the file read maps to.
\<close>

definition resolved_type :: "directive \<Rightarrow> string option \<Rightarrow> string option" where
  "resolved_type d path =
     (case o_type (options d) of
        Some t \<Rightarrow> Some t
      | None \<Rightarrow>
          (case type_argument d of
             Some t \<Rightarrow> Some t
           | None \<Rightarrow>
               (case path of
                  None \<Rightarrow> None
                | Some p \<Rightarrow> extension_type_map (splitext_ext p))))"

text \<open>
  The seven rules of the specification (section 4.1), each as the condition under which a
  directive violates it, in the words of the specification:
  \<^enum> \<open>filename\<close> option and a filename-like positional argument together;
  \<^enum> non-empty block content together with a resolved filename;
  \<^enum> a filename is resolved and reading it fails;
  \<^enum> neither content nor file yield non-empty text;
  \<^enum> \<open>type\<close> option and a type-like positional argument together;
  \<^enum> no explicit type, and none inferred from the filename's extension;
  \<^enum> \<open>format\<close> option and a format-like positional argument together.
\<close>

definition filename_ambiguous :: "directive \<Rightarrow> bool" where
  "filename_ambiguous d = (o_filename (options d) \<noteq> None \<and> filename_argument d \<noteq> None)"

definition content_ambiguous :: "directive \<Rightarrow> bool" where
  "content_ambiguous d = (strip (content_text d) \<noteq> [] \<and> given_filename d \<noteq> None)"



definition type_ambiguous :: "directive \<Rightarrow> bool" where
  "type_ambiguous d = (o_type (options d) \<noteq> None \<and> type_argument d \<noteq> None)"


definition format_ambiguous :: "directive \<Rightarrow> bool" where
  "format_ambiguous d = (o_format (options d) \<noteq> None \<and> format_argument d \<noteq> None)"



text \<open>The \<^verbatim>\<open>kroki\<close> node inside a returned node, if it is or wraps one.\<close>

fun diagram_of :: "node \<Rightarrow> kroki option" where
  "diagram_of (system_message msg line) = None"
| "diagram_of (kroki_node n) = Some n"
| "diagram_of (figure align n caption) = Some n"

section \<open>Failure conditions of a render call\<close>

text \<open>Some \<^verbatim>\<open>f.write(chunk)\<close> of the loop raises: the failing index is among the chunks.\<close>

definition write_fails :: "conditions \<Rightarrow> string list \<Rightarrow> bool" where
  "write_fails io chunks =
     (case write_fails_at io of None \<Rightarrow> False | Some j \<Rightarrow> j < length chunks)"


text \<open>
  Everything that can go wrong on a cache miss: the directory cannot be made, the request
  is refused, the file cannot be opened, the stream breaks, or a write fails.
\<close>

definition render_fails ::
  "library \<Rightarrow> conditions \<Rightarrow> builder \<Rightarrow> string \<Rightarrow> string \<Rightarrow> string \<Rightarrow> string \<Rightarrow> world \<Rightarrow> bool" where
  "render_fails lib io b diagram_type diagram_source output_format prefix w =
     (\<not> isfile w (outfn lib b diagram_type diagram_source output_format prefix) \<and>
      (ensuredir_fails io \<or>
       (case post io (kroki_url b) (payload diagram_type diagram_source output_format) of
          RequestFailed \<Rightarrow> True
        | Response status chunks broken \<Rightarrow>
            raise_for_status status \<or> open_fails io \<or> broken \<or> write_fails io chunks)))"

section \<open>Sample data for concrete instances\<close>

text \<open>
  The theorems below hold for every library; a concrete instance needs one. Here
  \<open>repr\<close> quotes a string that needs no escapes, the digest is a fixed stand-in of the
  right shape (forty hexadecimal digits) and \<open>encode\<close> leaves a text without special
  characters alone.
\<close>

definition example_library :: library where
  "example_library =
     \<lparr>repr = (\<lambda>s. [CHR 0x27] @ s @ [CHR 0x27]),
      sha1_hexdigest = (\<lambda>s. ''da39a3ee5e6b4b0d3255bfef95601890afd80709''),
      encode = (\<lambda>s. s)\<rparr>"

text \<open>The configuration defaults of \<^verbatim>\<open>setup\<close>, and the paths of an HTML build.\<close>

definition example_builder :: builder where
  "example_builder =
     \<lparr>kroki_url = ''https://kroki.io'', kroki_output_format = ''svg'',
      kroki_inline_svg = False,
      imgpath = ''_images'', outdir = ''/out'', imagedir = ''_images''\<rparr>"

definition example_env :: build_env where
  "example_env =
     \<lparr>docname = ''index'',
      search_image_for_language = (\<lambda>f. f),
      relfn2path = (\<lambda>f. (f, ''/src/'' @ f)),
      read_text = [''/src/seq.puml'' \<mapsto> ''A -> B'', ''/src/notes.xyz'' \<mapsto> ''A -> B''],
      dependencies = {}\<rparr>"

definition empty_world :: world where
  "empty_world = \<lparr>files = Map.empty, dirs = {}, posts = []\<rparr>"

definition empty_translator :: translator where
  "empty_translator = \<lparr>body = [], log = []\<rparr>"

text \<open>A service that answers every POST with the given status and chunks; nothing else fails.\<close>

definition service_answers :: "nat \<Rightarrow> string list \<Rightarrow> conditions" where
  "service_answers status chunks =
     \<lparr>ensuredir_fails = False,
      post = (\<lambda>url pl. Response status chunks False),
      open_fails = False,
      write_fails_at = None\<rparr>"

definition no_options :: options where
  "no_options =
     \<lparr>o_filename = None, o_type = None, o_format = None, o_align = None,
      o_caption = None, o_class = None\<rparr>"

text \<open>\<^verbatim>\<open>.. kroki:: mermaid\<close> with content \<^verbatim>\<open>A->B: hi\<close> and the option \<^verbatim>\<open>:caption: My caption\<close>.\<close>

definition captioned_directive :: directive where
  "captioned_directive =
     \<lparr>arguments = [''mermaid''],
      options = no_options\<lparr>o_caption := Some ''My caption''\<rparr>,
      content = [''A->B: hi''],
      lineno = 3\<rparr>"





text \<open>
  The sample request: a \<^verbatim>\<open>mermaid\<close> diagram \<^verbatim>\<open>A->B: hi\<close> as \<^verbatim>\<open>svg\<close> with the prefix
  \<^verbatim>\<open>kroki\<close>; the two paths it gets, the POST it causes, the world after a refused request
  and after a stored answer, and the node the directive makes for it.
\<close>

definition example_relfn :: string where
  "example_relfn = ''_images/kroki-da39a3ee5e6b4b0d3255bfef95601890afd80709.svg''"

definition example_outfn :: string where
  "example_outfn = ''/out/_images/kroki-da39a3ee5e6b4b0d3255bfef95601890afd80709.svg''"

definition example_post :: "string \<times> (string \<times> string) list" where
  "example_post =
     (''https://kroki.io'',
      [(''diagram_source'', ''A->B: hi''), (''diagram_type'', ''mermaid''),
       (''output_format'', ''svg'')])"

definition requested_world :: world where
  "requested_world = \<lparr>files = Map.empty, dirs = {''/out/_images''}, posts = [example_post]\<rparr>"

definition cached_world :: "string \<Rightarrow> world" where
  "cached_world data =
     \<lparr>files = [example_outfn \<mapsto> data], dirs = {''/out/_images''}, posts = [example_post]\<rparr>"

definition example_node :: kroki where
  "example_node =
     \<lparr>k_type = ''mermaid'', k_format = None, k_code = ''A->B: hi'',
      k_options = [(''docname'', ''index'')], k_align = None, k_classes = None\<rparr>"

section \<open>Lemmas about the directive\<close>

text \<open>
  The loop over the arguments computes the last argument of each kind.
\<close>

lemma scan_arguments_eq:
  "scan_arguments args fn dt fmt =
     (case last_such filename_like args of None \<Rightarrow> fn | Some a \<Rightarrow> Some a,
      case last_such type_like args of None \<Rightarrow> dt | Some a \<Rightarrow> Some a,
      case last_such format_like args of None \<Rightarrow> fmt | Some a \<Rightarrow> Some a)"
  by (induction args arbitrary: fn dt fmt)
     (auto simp: last_such_def filename_like_def type_like_def format_like_def
           split: list.splits)

lemma scan_arguments_directive:
  "scan_arguments (arguments d) None None None =
     (filename_argument d, type_argument d, format_argument d)"
  by (simp add: scan_arguments_eq filename_argument_def type_argument_def format_argument_def
           split: option.splits)

text \<open>
  The checks of \<^verbatim>\<open>run\<close> as a cascade over the inputs: first the part after the source
  text is known, then the whole function.
\<close>

lemma build_node_cascade:
  "build_node env d src path (type_argument d) (format_argument d) =
     (if strip src = [] then [system_message msg_no_content (lineno d)]
      else if type_ambiguous d then [system_message msg_type_conflict (lineno d)]
      else case resolved_type d path of
             None \<Rightarrow> [system_message msg_type_required (lineno d)]
           | Some t \<Rightarrow>
               if format_ambiguous d then [system_message msg_format_conflict (lineno d)]
               else
                 let n = \<lparr>k_type = t,
                          k_format = (case o_format (options d) of
                                        Some f \<Rightarrow> Some f | None \<Rightarrow> format_argument d),
                          k_code = src,
                          k_options = [(''docname'', docname env)],
                          k_align = o_align (options d),
                          k_classes = o_class (options d)\<rparr>
                 in [case o_caption (options d) of
                       None \<Rightarrow> kroki_node n
                     | Some c \<Rightarrow> figure_wrapper n c])"
  by (auto simp: build_node_def Let_def type_ambiguous_def format_ambiguous_def
        resolved_type_def split: option.splits)

lemma build_node_dependencies:
  "build_node (env\<lparr>dependencies := deps\<rparr>) d src path dt fmt = build_node env d src path dt fmt"
  by (simp add: build_node_def Let_def split: option.splits)

lemma run_cascade:
  "fst (run lib env d) =
     (if filename_ambiguous d then [system_message msg_filename_conflict (lineno d)]
      else if content_ambiguous d then [system_message msg_content_conflict (lineno d)]
      else case given_filename d of
             None \<Rightarrow>
               build_node env d (content_text d) None (type_argument d) (format_argument d)
           | Some f \<Rightarrow>
               (case read_text env (resolved_path env f) of
                  None \<Rightarrow>
                    [system_message (msg_read_failed lib (resolved_path env f)) (lineno d)]
                | Some src \<Rightarrow>
                    build_node env d src (Some (resolved_path env f))
                      (type_argument d) (format_argument d)))"
  by (auto simp: run_def Let_def scan_arguments_directive filename_ambiguous_def
        content_ambiguous_def given_filename_def content_text_def resolved_path_def
        build_node_dependencies split: option.splits prod.splits)


text \<open>
  Whatever the directive says, the options of a node that \<^verbatim>\<open>run\<close> returns hold the
  document name and nothing else, so a lookup of \<^verbatim>\<open>caption\<close> in them gives the default.
\<close>

lemma run_node_options:
  assumes "fst (run lib env d) = [n]" and "diagram_of n = Some k"
  shows "dict_get (k_options k) ''caption'' dflt = dflt"
proof -
  have "k_options k = [(''docname'', docname env)]"
    if "build_node env d src path (type_argument d) (format_argument d) = [n]" for src path
    using that assms(2)
    by (auto simp: build_node_cascade Let_def figure_wrapper_def
          split: if_splits option.splits)
  then have "k_options k = [(''docname'', docname env)]"
    using assms
    by (auto simp: run_cascade split: if_splits option.splits)
  then show ?thesis
    by (simp add: dict_get_def)
qed




section \<open>Lemmas about the renderer\<close>

text \<open>
  How the write loop ends: with \<^verbatim>\<open>IOError\<close> when the failing index is among the chunks
  still to write, else with \<^verbatim>\<open>RequestException\<close> when the stream is broken, else normally.
\<close>

lemma write_chunks_raised:
  "fst (write_chunks fails_at i chunks broken data) =
     (if (case fails_at of None \<Rightarrow> False | Some j \<Rightarrow> i \<le> j \<and> j < i + length chunks)
      then Some IOError
      else if broken then Some RequestException else None)"
  by (induction chunks arbitrary: i data) (auto split: option.splits)

lemma write_chunks_from_start:
  "fst (write_chunks (write_fails_at io) 0 chunks broken []) =
     (if write_fails io chunks then Some IOError
      else if broken then Some RequestException else None)"
  by (simp add: write_chunks_raised write_fails_def split: option.splits)

lemma write_chunks_result:
  assumes "write_chunks (write_fails_at io) 0 chunks broken [] = (raised, data)"
  shows "raised = (if write_fails io chunks then Some IOError
                   else if broken then Some RequestException else None)"
  using write_chunks_from_start[of io chunks broken] assms by simp

text \<open>
  A cache hit returns at once; the result is the path pair unless the call fails, and a
  failing call raises; a successful call leaves the artifact in place; at most one POST is
  added; a refused request changes no file.
\<close>

lemma render_kroki_hit:
  "isfile w (outfn lib b t s f p) \<Longrightarrow>
   render_kroki lib io b t s f p w = (Inr (relfn lib b t s f p, outfn lib b t s f p), w)"
  by (simp add: render_kroki_def Let_def)

lemma render_kroki_result:
  "fst (render_kroki lib io b t s f p w) =
     (if render_fails lib io b t s f p w
      then fst (render_kroki lib io b t s f p w)
      else Inr (relfn lib b t s f p, outfn lib b t s f p))"
  by (auto simp: render_kroki_def render_fails_def Let_def dest!: write_chunks_result
        split: http_outcome.splits prod.splits option.splits exn.splits if_splits)

lemma render_kroki_raises:
  "render_fails lib io b t s f p w \<Longrightarrow>
   \<exists>m. fst (render_kroki lib io b t s f p w) = Inl (KrokiError m)"
  by (auto simp: render_kroki_def render_fails_def Let_def dest!: write_chunks_result
        split: http_outcome.splits prod.splits option.splits exn.splits if_splits)

lemma render_kroki_success:
  assumes "render_kroki lib io b t s f p w = (Inr r, w1)"
  shows "r = (relfn lib b t s f p, outfn lib b t s f p) \<and> isfile w1 (outfn lib b t s f p)"
  using assms
  by (auto simp: render_kroki_def Let_def isfile_def
        split: http_outcome.splits prod.splits option.splits exn.splits if_splits)

lemma render_kroki_posts:
  "posts (snd (render_kroki lib io b t s f p w)) = posts w \<or>
   posts (snd (render_kroki lib io b t s f p w)) = posts w @ [(kroki_url b, payload t s f)]"
  by (auto simp: render_kroki_def Let_def
        split: http_outcome.splits prod.splits option.splits exn.splits)


text \<open>
  \<^verbatim>\<open>render_html\<close> on a \<^verbatim>\<open>KrokiError\<close>.
\<close>

lemma render_html_error:
  assumes "render_kroki lib io b t s
             (case k_format node of Some f \<Rightarrow> f | None \<Rightarrow> kroki_output_format b) p (snd st)
           = (Inl exc, w1)"
  shows "render_html lib io b node t s opts p kc st =
           (SkipNode,
            (fst st)\<lparr>log := log (fst st) @
               [(msg_render_warning,
                 [Str t, Str (case k_format node of Some f \<Rightarrow> f | None \<Rightarrow> kroki_output_format b),
                  Str s, Exc exc])]\<rparr>,
            w1)"
  using assms by (simp add: render_html_def Let_def)

text \<open>
  Separators at the ends of a path, and the join of three plain parts.
\<close>

lemma endswith_slash: "endswith s ''/'' = (s \<noteq> [] \<and> last s = CHR ''/'')"
  by (cases s rule: rev_cases) (simp_all add: endswith_def)

lemma startswith_slash: "startswith s ''/'' = (s \<noteq> [] \<and> hd s = CHR ''/'')"
  by (cases s) (simp_all add: startswith_def)

lemma posixpath_join3_plain:
  assumes "a \<noteq> []" "\<not> endswith a ''/''"
    and "m \<noteq> []" "\<not> startswith m ''/''" "\<not> endswith m ''/''"
    and "\<not> startswith c ''/''"
  shows "posixpath_join3 a m c = a @ ''/'' @ m @ ''/'' @ c"
  using assms
  by (simp add: posixpath_join3_def posixpath_join_def endswith_slash)

text \<open>
  The sample request evaluated: its paths, its POST, and the two ways a call on the
  empty world ends.
\<close>

lemma example_names:
  "relfn example_library example_builder ''mermaid'' ''A->B: hi'' ''svg'' ''kroki'' = example_relfn"
  "outfn example_library example_builder ''mermaid'' ''A->B: hi'' ''svg'' ''kroki'' = example_outfn"
  by (simp_all add: relfn_def outfn_def fname_def example_library_def example_builder_def
        posixpath_join3_def posixpath_join_def startswith_def endswith_def
        example_relfn_def example_outfn_def)

lemma example_request:
  "(kroki_url example_builder, payload ''mermaid'' ''A->B: hi'' ''svg'') = example_post"
  by (simp add: example_builder_def payload_def example_post_def)

lemma example_dirname: "dirname example_outfn = ''/out/_images''"
  by (simp add: dirname_def example_outfn_def)

lemma example_render_answered:
  assumes "\<not> raise_for_status status"
  shows "render_kroki example_library (service_answers status chunks) example_builder
      ''mermaid'' ''A->B: hi'' ''svg'' ''kroki'' empty_world
    = (Inr (example_relfn, example_outfn),
       cached_world (snd (write_chunks None 0 chunks False [])))"
proof -
  have "fst (write_chunks None 0 chunks False []) = None"
    by (simp add: write_chunks_raised)
  then obtain data where written: "write_chunks None 0 chunks False [] = (None, data)"
    by (cases "write_chunks None 0 chunks False []") simp
  have "post (service_answers status chunks) (fst example_post) (snd example_post)
      = Response status chunks False"
    by (simp add: service_answers_def)
  then show ?thesis
    using assms example_request
    by (simp add: render_kroki_def example_names Let_def isfile_def empty_world_def
          example_dirname cached_world_def)
       (simp add: service_answers_def written)
qed

lemma example_render_refused:
  "raise_for_status status \<Longrightarrow>
   render_kroki example_library (service_answers status chunks) example_builder
      ''mermaid'' ''A->B: hi'' ''svg'' ''kroki'' empty_world
    = (Inl (KrokiError msg_no_diagram), requested_world)"
  using example_request
  by (simp add: render_kroki_def example_names Let_def isfile_def empty_world_def
        service_answers_def example_dirname requested_world_def)

section \<open>The claims\<close>

subsection \<open>C1\<close>

text \<open>
  C1. When the artifact file of a request already exists, \<^verbatim>\<open>render_kroki\<close> returns the pair
  (relative path, absolute path) at once and leaves the world as it is, so no POST is
  issued. Hence, after a successful call, a second call with the same service URL, diagram
  source, diagram type and output format on any world with the same files returns the same
  pair and adds no POST, whatever the service would do.
\<close>

theorem cached_artifact_is_returned_without_post:
  "(isfile w (outfn lib b t s f p) \<longrightarrow>
      render_kroki lib io b t s f p w = (Inr (relfn lib b t s f p, outfn lib b t s f p), w)) \<and>
   (render_kroki lib io b t s f p w = (Inr r, w1) \<and> files w2 = files w1 \<longrightarrow>
      render_kroki lib io2 b t s f p w2 = (Inr r, w2) \<and>
      posts (snd (render_kroki lib io2 b t s f p w2)) = posts w2)"
proof -
  have "render_kroki lib io2 b t s f p w2 = (Inr r, w2)"
    if "render_kroki lib io b t s f p w = (Inr r, w1)" and "files w2 = files w1"
  proof -
    from that(1) have "r = (relfn lib b t s f p, outfn lib b t s f p)"
      and "isfile w1 (outfn lib b t s f p)"
      using render_kroki_success by blast+
    with that(2) show ?thesis
      by (simp add: render_kroki_hit isfile_def)
  qed
  then show ?thesis
    by (simp add: render_kroki_hit)
qed

text \<open>
  Instance: the sample request on the empty world is answered with status 200 and stored;
  repeated while the service answers 500, it returns the same pair and the world, with its
  single POST, is unchanged.
\<close>

theorem cached_artifact_is_returned_without_post_witness:
  "render_kroki example_library (service_answers 200 [''<svg/>'']) example_builder
      ''mermaid'' ''A->B: hi'' ''svg'' ''kroki'' empty_world
     = (Inr (example_relfn, example_outfn), cached_world ''<svg/>'') \<and>
   render_kroki example_library (service_answers 500 []) example_builder
      ''mermaid'' ''A->B: hi'' ''svg'' ''kroki'' (cached_world ''<svg/>'')
     = (Inr (example_relfn, example_outfn), cached_world ''<svg/>'') \<and>
   posts (cached_world ''<svg/>'') = [example_post]"
proof -
  have first: "render_kroki example_library (service_answers 200 [''<svg/>'']) example_builder
      ''mermaid'' ''A->B: hi'' ''svg'' ''kroki'' empty_world
     = (Inr (example_relfn, example_outfn), cached_world ''<svg/>'')"
    using example_render_answered[of 200 "[''<svg/>'']"]
    by (simp add: raise_for_status_def)
  show ?thesis
    using first
      cached_artifact_is_returned_without_post[of empty_world example_library example_builder
        "''mermaid''" "''A->B: hi''" "''svg''" "''kroki''" "service_answers 200 [''<svg/>'']"
        "(example_relfn, example_outfn)" "cached_world ''<svg/>''" "cached_world ''<svg/>''"
        "service_answers 500 []"]
    by (simp add: cached_world_def)
qed

subsection \<open>C2\<close>

text \<open>
  C2. The cache key is a function of the service URL, the diagram source, the diagram type
  and the output format alone: builders that agree on the URL give the same key and, for a
  fixed prefix, the same file name, whatever their paths and other settings; and two
  successful calls for the same request return the same pair, whatever the worlds and the
  service's behaviour.
\<close>

theorem cache_key_is_deterministic:
  "(kroki_url b1 = kroki_url b2 \<longrightarrow>
      hashkey lib b1 t s f = hashkey lib b2 t s f \<and>
      fname lib b1 t s f p = fname lib b2 t s f p) \<and>
   (render_kroki lib io1 b1 t s f p w1 = (Inr r1, w1') \<and>
    render_kroki lib io2 b1 t s f p w2 = (Inr r2, w2') \<longrightarrow> r1 = r2)"
proof -
  have "r1 = r2"
    if "render_kroki lib io1 b1 t s f p w1 = (Inr r1, w1')"
      and "render_kroki lib io2 b1 t s f p w2 = (Inr r2, w2')"
    using render_kroki_success[OF that(1)] render_kroki_success[OF that(2)] by simp
  then show ?thesis
    by (simp add: hashkey_def fname_def)
qed

text \<open>
  Instance: the sample builder and one with another output directory; a first call that
  fetches and a second that hits the cache.
\<close>

theorem cache_key_is_deterministic_witness:
  "hashkey example_library example_builder ''mermaid'' ''A->B: hi'' ''svg''
     = hashkey example_library (example_builder\<lparr>outdir := ''/elsewhere''\<rparr>)
         ''mermaid'' ''A->B: hi'' ''svg'' \<and>
   fname example_library example_builder ''mermaid'' ''A->B: hi'' ''svg'' ''kroki''
     = fname example_library (example_builder\<lparr>outdir := ''/elsewhere''\<rparr>)
         ''mermaid'' ''A->B: hi'' ''svg'' ''kroki'' \<and>
   fst (render_kroki example_library (service_answers 200 [''<svg/>'']) example_builder
          ''mermaid'' ''A->B: hi'' ''svg'' ''kroki'' empty_world)
     = fst (render_kroki example_library (service_answers 500 []) example_builder
          ''mermaid'' ''A->B: hi'' ''svg'' ''kroki'' (cached_world ''<svg/>''))"
proof -
  have first: "render_kroki example_library (service_answers 200 [''<svg/>'']) example_builder
      ''mermaid'' ''A->B: hi'' ''svg'' ''kroki'' empty_world
     = (Inr (example_relfn, example_outfn), cached_world ''<svg/>'')"
    using example_render_answered[of 200 "[''<svg/>'']"]
    by (simp add: raise_for_status_def)
  have second: "render_kroki example_library (service_answers 500 []) example_builder
      ''mermaid'' ''A->B: hi'' ''svg'' ''kroki'' (cached_world ''<svg/>'')
     = (Inr (example_relfn, example_outfn), cached_world ''<svg/>'')"
    by (simp add: render_kroki_def Let_def example_names isfile_def cached_world_def)
  show ?thesis
    using first second
      cache_key_is_deterministic[of example_builder "example_builder\<lparr>outdir := ''/elsewhere''\<rparr>"
        example_library "''mermaid''" "''A->B: hi''" "''svg''" "''kroki''"
        "service_answers 200 [''<svg/>'']" empty_world "(example_relfn, example_outfn)"
        "cached_world ''<svg/>''" "service_answers 500 []" "cached_world ''<svg/>''"
        "(example_relfn, example_outfn)" "cached_world ''<svg/>''"]
    by simp
qed

subsection \<open>C3\<close>

text \<open>
  C3. The alternate text of the image link of a directive with a caption option, end to
  end. \<^verbatim>\<open>render_html\<close> looks the caption up in the options it is given, but \<^verbatim>\<open>run\<close> stores
  only the document name in the node's options and hands the caption to
  \<^verbatim>\<open>figure_wrapper\<close> (lemma \<open>run_node_options\<close>), so the lookup falls back to the diagram
  source. On the sample directive with the caption \<^verbatim>\<open>My caption\<close> and a service that
  answers with status 200, the alternate text is the diagram source \<^verbatim>\<open>A->B: hi\<close>.
\<close>

theorem caption_is_not_the_alternate_text:
  "fst (run example_library example_env captioned_directive)
     = [figure None example_node ''My caption''] \<and>
   visit_nodes example_library (service_answers 200 [''<svg/>'']) example_builder
     (fst (run example_library example_env captioned_directive))
     (empty_translator, empty_world)
     = (None,
        \<lparr>body = [''<div class=\"kroki kroki-mermaid\">'',
                  link_markup example_relfn ''A->B: hi'',
                  ''</div>'' @ [CHR 0x0A]],
         log = []\<rparr>,
        cached_world ''<svg/>'')"
proof -
  have nodes: "fst (run example_library example_env captioned_directive)
     = [figure None example_node ''My caption'']"
    by (simp add: run_def build_node_def Let_def captioned_directive_def no_options_def
          types_def strip_def isspace_def figure_wrapper_def example_node_def example_env_def)
  have rendered: "render_kroki example_library (service_answers 200 [''<svg/>''])
      example_builder ''mermaid'' ''A->B: hi'' ''svg'' ''kroki'' empty_world
     = (Inr (example_relfn, example_outfn), cached_world ''<svg/>'')"
    using example_render_answered[of 200 "[''<svg/>'']"]
    by (simp add: raise_for_status_def)
  have fmt: "kroki_output_format example_builder = ''svg''"
    "kroki_inline_svg example_builder = False"
    by (simp_all add: example_builder_def)
  have "strip (encode example_library ''A->B: hi'') = ''A->B: hi''"
    by (simp add: example_library_def strip_def isspace_def)
  then show ?thesis
    using rendered
    by (simp add: nodes html_visit_kroki_def render_html_def Let_def example_node_def fmt
          dict_get_def empty_translator_def)
qed

subsection \<open>C4\<close>



subsection \<open>C5\<close>



subsection \<open>C6\<close>



subsection \<open>C7\<close>

text \<open>
  C7, as amended. \<^verbatim>\<open>render_kroki\<close> raises \<^verbatim>\<open>KrokiError\<close> exactly when, the artifact not
  being cached, making the directory fails, the request fails (at the POST or while the
  body is streamed), the status is one \<^verbatim>\<open>raise_for_status\<close> rejects (400 to 599), or
  opening or writing the file fails; in every other case it returns the path pair; and it
  issues at most one POST, so nothing is retried.
\<close>

theorem render_kroki_raises_exactly_on_failure:
  "(render_fails lib io b t s f p w \<longrightarrow>
      (\<exists>m. fst (render_kroki lib io b t s f p w) = Inl (KrokiError m))) \<and>
   (\<not> render_fails lib io b t s f p w \<longrightarrow>
      fst (render_kroki lib io b t s f p w)
        = Inr (relfn lib b t s f p, outfn lib b t s f p)) \<and>
   (posts (snd (render_kroki lib io b t s f p w)) = posts w \<or>
    posts (snd (render_kroki lib io b t s f p w)) = posts w @ [(kroki_url b, payload t s f)])"
  using render_kroki_raises[of lib io b t s f p w] render_kroki_result[of lib io b t s f p w]
    render_kroki_posts[of lib io b t s f p w]
  by presburger

text \<open>
  Instances: status 500 on the empty world is a failure and raises; status 304 is none and
  returns the pair.
\<close>

theorem render_kroki_raises_exactly_on_failure_witness:
  "render_fails example_library (service_answers 500 []) example_builder
      ''mermaid'' ''A->B: hi'' ''svg'' ''kroki'' empty_world \<and>
   (\<exists>m. fst (render_kroki example_library (service_answers 500 []) example_builder
             ''mermaid'' ''A->B: hi'' ''svg'' ''kroki'' empty_world) = Inl (KrokiError m)) \<and>
   \<not> render_fails example_library (service_answers 304 [''<svg/>'']) example_builder
      ''mermaid'' ''A->B: hi'' ''svg'' ''kroki'' empty_world \<and>
   fst (render_kroki example_library (service_answers 304 [''<svg/>'']) example_builder
          ''mermaid'' ''A->B: hi'' ''svg'' ''kroki'' empty_world)
     = Inr (example_relfn, example_outfn)"
proof -
  have post: "post (service_answers status chunks) (kroki_url example_builder)
        (payload ''mermaid'' ''A->B: hi'' ''svg'') = Response status chunks False"
    for status chunks
    by (simp add: service_answers_def)
  have miss: "\<not> isfile empty_world example_outfn"
    by (simp add: isfile_def empty_world_def)
  have fails: "render_fails example_library (service_answers 500 []) example_builder
      ''mermaid'' ''A->B: hi'' ''svg'' ''kroki'' empty_world"
    using miss by (simp add: render_fails_def post example_names raise_for_status_def)
  have works: "\<not> render_fails example_library (service_answers 304 [''<svg/>'']) example_builder
      ''mermaid'' ''A->B: hi'' ''svg'' ''kroki'' empty_world"
    by (simp add: render_fails_def post example_names raise_for_status_def write_fails_def)
       (simp add: service_answers_def)
  show ?thesis
    using fails works
      render_kroki_raises_exactly_on_failure[of example_library "service_answers 500 []"
        example_builder "''mermaid''" "''A->B: hi''" "''svg''" "''kroki''" empty_world]
      render_kroki_raises_exactly_on_failure[of example_library
        "service_answers 304 [''<svg/>'']"
        example_builder "''mermaid''" "''A->B: hi''" "''svg''" "''kroki''" empty_world]
    by (simp add: example_names)
qed

text \<open>
  With "a non-2xx status" in place of the rejected statuses the statement fails: the
  status 304 is not in the range 200 to 299, yet the call stores the body and returns the
  pair.
\<close>

theorem status_304_is_written_as_success:
  "post (service_answers 304 [''<svg/>'']) (kroki_url example_builder)
        (payload ''mermaid'' ''A->B: hi'' ''svg'') = Response 304 [''<svg/>''] False \<and>
   \<not> (200 \<le> (304::nat) \<and> (304::nat) < 300) \<and>
   render_kroki example_library (service_answers 304 [''<svg/>'']) example_builder
      ''mermaid'' ''A->B: hi'' ''svg'' ''kroki'' empty_world
     = (Inr (example_relfn, example_outfn), cached_world ''<svg/>'')"
  using example_render_answered[of 304 "[''<svg/>'']"]
  by (simp add: raise_for_status_def service_answers_def)

subsection \<open>C8\<close>

text \<open>
  C8. When \<^verbatim>\<open>render_kroki\<close> raises \<^verbatim>\<open>KrokiError\<close>, \<^verbatim>\<open>render_html\<close> logs one warning whose
  arguments are the diagram type, the output format, the diagram source and the error,
  leaves the body as it was, and ends with \<^verbatim>\<open>SkipNode\<close>, which the walk over the node
  catches: no exception leaves the visit.
\<close>

theorem render_error_is_logged_and_node_skipped:
  assumes "render_kroki lib io b t s
             (case k_format node of Some f \<Rightarrow> f | None \<Rightarrow> kroki_output_format b) p (snd st)
           = (Inl exc, w1)"
  shows "fst (render_html lib io b node t s opts p kc st) = SkipNode \<and>
         body (fst (snd (render_html lib io b node t s opts p kc st))) = body (fst st) \<and>
         log (fst (snd (render_html lib io b node t s opts p kc st))) =
           log (fst st) @
             [(msg_render_warning,
               [Str t,
                Str (case k_format node of Some f \<Rightarrow> f | None \<Rightarrow> kroki_output_format b),
                Str s, Exc exc])] \<and>
         (t = k_type node \<and> s = k_code node \<and> p = ''kroki'' \<longrightarrow>
            fst (visit_node lib io b (kroki_node node) st) = None)"
proof -
  note here = render_html_error[OF assms, of opts kc]
  have "fst (visit_node lib io b (kroki_node node) st) = None"
    if "t = k_type node" "s = k_code node" "p = ''kroki''"
    using render_html_error[OF assms, of "k_options node" None] that
    by (simp add: html_visit_kroki_def)
  with here show ?thesis
    by simp
qed

text \<open>
  Instance: the service answers the sample request with status 500.
\<close>

theorem render_error_is_logged_and_node_skipped_witness:
  "render_html example_library (service_answers 500 []) example_builder example_node
      ''mermaid'' ''A->B: hi'' [(''docname'', ''index'')] ''kroki'' None
      (empty_translator, empty_world)
     = (SkipNode,
        \<lparr>body = [],
         log = [(msg_render_warning,
                 [Str ''mermaid'', Str ''svg'', Str ''A->B: hi'',
                  Exc (KrokiError msg_no_diagram)])]\<rparr>,
        requested_world) \<and>
   fst (visit_node example_library (service_answers 500 []) example_builder
          (kroki_node example_node) (empty_translator, empty_world)) = None"
proof -
  have fmt: "(case k_format example_node of Some f \<Rightarrow> f
              | None \<Rightarrow> kroki_output_format example_builder) = ''svg''"
    by (simp add: example_node_def example_builder_def)
  have err: "render_kroki example_library (service_answers 500 []) example_builder
      ''mermaid'' ''A->B: hi''
      (case k_format example_node of Some f \<Rightarrow> f
       | None \<Rightarrow> kroki_output_format example_builder) ''kroki''
      (snd (empty_translator, empty_world))
     = (Inl (KrokiError msg_no_diagram), requested_world)"
    using example_render_refused[of 500 "[]"]
    by (simp add: fmt raise_for_status_def)
  have node: "k_type example_node = ''mermaid''" "k_code example_node = ''A->B: hi''"
    by (simp_all add: example_node_def)
  have "render_html example_library (service_answers 500 []) example_builder example_node
      ''mermaid'' ''A->B: hi'' [(''docname'', ''index'')] ''kroki'' None
      (empty_translator, empty_world)
     = (SkipNode,
        \<lparr>body = [],
         log = [(msg_render_warning,
                 [Str ''mermaid'', Str ''svg'', Str ''A->B: hi'',
                  Exc (KrokiError msg_no_diagram)])]\<rparr>,
        requested_world)"
    using err by (simp add: render_html_def Let_def fmt empty_translator_def)
  then show ?thesis
    using render_error_is_logged_and_node_skipped[OF err, of "[(''docname'', ''index'')]" None]
    by (simp add: node)
qed

subsection \<open>C9\<close>

text \<open>
  C9. The pair a call returns is built from the file name
  \<^verbatim>\<open><prefix>-<hexdigest>.<output_format>\<close>, the digest being that of the cache key: the
  relative path joins the builder's image path to the name, the absolute path joins the
  output directory, the image directory and the name, and the artifact is a file there
  when the call returns. For plain parts (a non-empty output directory and a relative
  image directory without trailing separators, a prefix that does not start with one) the
  absolute path is \<^verbatim>\<open><outdir>/<imagedir>/<name>\<close>.
\<close>

theorem artifact_name_and_location:
  assumes "render_kroki lib io b t s f p w = (Inr (rel, out), w1)"
  shows "rel = posixpath_join (imgpath b)
                 (p @ ''-'' @ sha1_hexdigest lib (hashkey lib b t s f) @ ''.'' @ f) \<and>
         out = posixpath_join3 (outdir b) (imagedir b)
                 (p @ ''-'' @ sha1_hexdigest lib (hashkey lib b t s f) @ ''.'' @ f) \<and>
         isfile w1 out \<and>
         (outdir b \<noteq> [] \<and> \<not> endswith (outdir b) ''/'' \<and>
          imagedir b \<noteq> [] \<and> \<not> startswith (imagedir b) ''/'' \<and> \<not> endswith (imagedir b) ''/'' \<and>
          \<not> startswith p ''/'' \<longrightarrow>
            out = outdir b @ ''/'' @ imagedir b @ ''/''
                  @ p @ ''-'' @ sha1_hexdigest lib (hashkey lib b t s f) @ ''.'' @ f)"
proof -
  let ?name = "p @ ''-'' @ sha1_hexdigest lib (hashkey lib b t s f) @ ''.'' @ f"
  from render_kroki_success[OF assms]
  have rel: "rel = posixpath_join (imgpath b) ?name"
    and out: "out = posixpath_join3 (outdir b) (imagedir b) ?name"
    and stored: "isfile w1 out"
    by (simp_all add: relfn_def outfn_def fname_def)
  have "out = outdir b @ ''/'' @ imagedir b @ ''/'' @ ?name"
    if "outdir b \<noteq> []" "\<not> endswith (outdir b) ''/''" "imagedir b \<noteq> []"
      "\<not> startswith (imagedir b) ''/''" "\<not> endswith (imagedir b) ''/''"
      "\<not> startswith p ''/''"
  proof -
    have "\<not> startswith ?name ''/''"
      using that(6) by (cases p) (simp_all add: startswith_def)
    then show ?thesis
      unfolding out using that(1-5) by (rule posixpath_join3_plain[rotated 5])
  qed
  with rel out stored show ?thesis
    by blast
qed

text \<open>
  Instance: the sample request, fetched and stored.
\<close>

theorem artifact_name_and_location_witness:
  "render_kroki example_library (service_answers 200 [''<svg/>'']) example_builder
      ''mermaid'' ''A->B: hi'' ''svg'' ''kroki'' empty_world
     = (Inr (''_images/kroki-da39a3ee5e6b4b0d3255bfef95601890afd80709.svg'',
             ''/out/_images/kroki-da39a3ee5e6b4b0d3255bfef95601890afd80709.svg''),
        cached_world ''<svg/>'') \<and>
   isfile (cached_world ''<svg/>'')
     ''/out/_images/kroki-da39a3ee5e6b4b0d3255bfef95601890afd80709.svg''"
proof -
  have first: "render_kroki example_library (service_answers 200 [''<svg/>'']) example_builder
      ''mermaid'' ''A->B: hi'' ''svg'' ''kroki'' empty_world
     = (Inr (example_relfn, example_outfn), cached_world ''<svg/>'')"
    using example_render_answered[of 200 "[''<svg/>'']"]
    by (simp add: raise_for_status_def)
  have "isfile (cached_world ''<svg/>'') example_outfn"
    using artifact_name_and_location[OF first] by blast
  with first show ?thesis
    by (simp add: example_relfn_def example_outfn_def)
qed

subsection \<open>C10\<close>



end
